theory Spec2Isabelle
  imports Complex_Main "HOL-Library.Multiset"
begin

section \<open>Numbers, errors and arrays\<close>

text \<open>
  The program computes with NumPy \<open>float64\<close> values. They are modelled by exact reals:
  rounding and overflow are not part of the model. What is kept is the one place where
  floats leave the reals, division by zero: NumPy's \<open>float64\<close> division by zero does not
  raise, it yields \<open>nan\<close> or \<open>inf\<close> (\<open>NonFinite\<close> below), which every later \<open>+\<close>, \<open>-\<close>
  and \<open>*\<close> of the program keeps non-finite.
\<close>

datatype npfloat = Finite real | NonFinite

fun np_div :: "real \<Rightarrow> real \<Rightarrow> npfloat" where
  "np_div a b = (if b = 0 then NonFinite else Finite (a / b))"

fun np_add :: "npfloat \<Rightarrow> npfloat \<Rightarrow> npfloat" where
  "np_add (Finite a) (Finite b) = Finite (a + b)"
| "np_add _ _ = NonFinite"

fun np_sub :: "npfloat \<Rightarrow> npfloat \<Rightarrow> npfloat" where
  "np_sub (Finite a) (Finite b) = Finite (a - b)"
| "np_sub _ _ = NonFinite"

fun np_mul :: "npfloat \<Rightarrow> npfloat \<Rightarrow> npfloat" where
  "np_mul (Finite a) (Finite b) = Finite (a * b)"
| "np_mul _ _ = NonFinite"

text \<open>
  The exceptions. \<open>ZeroDivisionError\<close>, \<open>IndexError\<close> and \<open>ValueError\<close> are the ones the
  Python code can raise. \<open>DegenerateMeshError\<close> and \<open>PointOutsideMeshError\<close> are the
  error kinds the specification names; no statement of the source raises them.
\<close>

datatype error =
    ZeroDivisionError
  | IndexError
  | ValueError
  | DegenerateMeshError
  | PointOutsideMeshError

definition bnd :: "error + 'a \<Rightarrow> ('a \<Rightarrow> error + 'b) \<Rightarrow> error + 'b" where
  "bnd r k = (case r of Inl e \<Rightarrow> Inl e | Inr v \<Rightarrow> k v)"

text \<open>Indexing \<open>a[i]\<close> of a Python sequence or NumPy array: a negative \<open>i\<close> counts from the end.\<close>

definition py_index :: "'a list \<Rightarrow> int \<Rightarrow> error + 'a" where
  "py_index a i =
     (if 0 \<le> i \<and> i < int (length a) then Inr (a ! nat i)
      else if i < 0 \<and> - int (length a) \<le> i then Inr (a ! nat (int (length a) + i))
      else Inl IndexError)"

type_synonym point2 = "real \<times> real"
type_synonym point3 = "real \<times> real \<times> real"

text \<open>A \<open>trimesh.Trimesh\<close>: an \<open>(n, 3)\<close> array of vertices and an \<open>(m, 3)\<close> array of vertex indices.\<close>

record mesh =
  vertices :: "point3 list"
  faces :: "(int \<times> int \<times> int) list"

section \<open>Barycentric coordinates\<close>

definition dot :: "point2 \<Rightarrow> point2 \<Rightarrow> real" where
  "dot u v = fst u * fst v + snd u * snd v"

definition vsub :: "point2 \<Rightarrow> point2 \<Rightarrow> point2" where
  "vsub u v = (fst u - fst v, snd u - snd v)"

definition getBarycentricCoord :: "point2 \<Rightarrow> point2 \<Rightarrow> point2 \<Rightarrow> point2 \<Rightarrow> npfloat list" where
  "getBarycentricCoord pto vert_a vert_b vert_c =
     (let ab = vsub vert_b vert_a;
          ac = vsub vert_c vert_a;
          ap = vsub pto vert_a;
          normal_ac = (snd vert_a - snd vert_c, fst vert_c - fst vert_a);
          normal_ab = (snd vert_a - snd vert_b, fst vert_b - fst vert_a);
          bary_beta = np_div (dot ap normal_ac) (dot ab normal_ac);
          bary_gamma = np_div (dot ap normal_ab) (dot ac normal_ab);
          bary_alpha = np_sub (np_sub (Finite 1) bary_beta) bary_gamma
      in [bary_alpha, bary_beta, bary_gamma])"

section \<open>Point location and interpolation\<close>

text \<open>
  \<open>trimesh.ray.ray_pyembree.RayMeshIntersector(mesh2d)\<close> is a library object. The
  parameter \<open>ray\<close> stands for it: for one ray origin it gives the index of the first
  triangle hit by the ray in direction \<open>(0, 0, 1)\<close>, or \<open>-1\<close> when nothing is hit.
  \<open>intersects_first\<close> answers an array of origins row by row.
\<close>

definition intersects_first :: "(point3 \<Rightarrow> int) \<Rightarrow> point3 list \<Rightarrow> int list" where
  "intersects_first ray origins = map ray origins"

definition eps :: real where
  "eps = 925925925926 / 10 ^ 16"

text \<open>\<open>point_temp += eps\<close>: the scalar is added to every component of the row.\<close>

definition add_eps :: "point3 \<Rightarrow> point3" where
  "add_eps p = (case p of (x, y, z) \<Rightarrow> (x + eps, y + eps, z + eps))"

text \<open>
  The loop \<open>for i in pos[0]\<close>. \<open>point_temp\<close> is a view of row \<open>i\<close> of the caller's array, so
  the addition writes into \<open>points\<close>; the state is the pair of arrays
  \<open>(points, face_indexes)\<close>.
\<close>

fun retry_loop :: "(point3 \<Rightarrow> int) \<Rightarrow> nat list \<Rightarrow> point3 list \<times> int list
                     \<Rightarrow> point3 list \<times> int list" where
  "retry_loop ray [] (points, face_indexes) = (points, face_indexes)"
| "retry_loop ray (i # pos) (points, face_indexes) =
     (let point_temp = add_eps (points ! i);
          points' = points[i := point_temp];
          new_index = intersects_first ray [point_temp] ! 0
      in retry_loop ray pos (points', face_indexes[i := new_index]))"

text \<open>\<open>np.delete(points, 2, 1)\<close> on the points and \<open>[:-1]\<close> on a vertex: the third component goes.\<close>

definition drop_z :: "point3 \<Rightarrow> point2" where
  "drop_z p = (case p of (x, y, z) \<Rightarrow> (x, y))"

text \<open>The body of the interpolation loop once \<open>face_nodes\<close> has been read.\<close>

definition interpolate_in_face :: "mesh \<Rightarrow> npfloat list \<Rightarrow> int \<times> int \<times> int \<Rightarrow> point2
                                     \<Rightarrow> error + npfloat" where
  "interpolate_in_face mesh2d nodes_values face_nodes pt =
     (case face_nodes of (node0_index, node1_index, node2_index) \<Rightarrow>
        bnd (py_index (vertices mesh2d) node0_index) (\<lambda>node0coordinates.
        bnd (py_index (vertices mesh2d) node1_index) (\<lambda>node1coordinates.
        bnd (py_index (vertices mesh2d) node2_index) (\<lambda>node2coordinates.
          let bar_coord = getBarycentricCoord pt (drop_z node0coordinates)
                            (drop_z node1coordinates) (drop_z node2coordinates)
          in
        bnd (py_index nodes_values node0_index) (\<lambda>v0.
        bnd (py_index nodes_values node1_index) (\<lambda>v1.
        bnd (py_index nodes_values node2_index) (\<lambda>v2.
          Inr (np_add (np_add (np_mul (bar_coord ! 0) v0) (np_mul (bar_coord ! 1) v1))
                      (np_mul (bar_coord ! 2) v2)))))))))"

definition interpolate_at :: "mesh \<Rightarrow> npfloat list \<Rightarrow> int \<Rightarrow> point2 \<Rightarrow> error + npfloat" where
  "interpolate_at mesh2d nodes_values face_index pt =
     bnd (py_index (faces mesh2d) face_index) (\<lambda>face_nodes.
       interpolate_in_face mesh2d nodes_values face_nodes pt)"

text \<open>
  The loop \<open>for index in range(0, len(face_indexes))\<close>; the counter \<open>c\<close> runs with \<open>index\<close>,
  so the two arrays are read in step.
\<close>

fun interpolate_loop :: "mesh \<Rightarrow> npfloat list \<Rightarrow> int list \<Rightarrow> point2 list
                           \<Rightarrow> error + npfloat list" where
  "interpolate_loop mesh2d nodes_values [] points = Inr []"
| "interpolate_loop mesh2d nodes_values (face_index # face_indexes) [] = Inl IndexError"
| "interpolate_loop mesh2d nodes_values (face_index # face_indexes) (pt # points) =
     bnd (interpolate_at mesh2d nodes_values face_index pt) (\<lambda>interpolated_value.
     bnd (interpolate_loop mesh2d nodes_values face_indexes points) (\<lambda>interpolated_values.
       Inr (interpolated_value # interpolated_values)))"

text \<open>
  \<open>interpolate_pointCloud\<close> returns the caller's \<open>points\<close> array as the call leaves it,
  and the result (the array of interpolated values, or the exception raised).
\<close>

definition interpolate_pointCloud :: "(point3 \<Rightarrow> int) \<Rightarrow> point3 list \<Rightarrow> mesh \<Rightarrow> npfloat list
                                        \<Rightarrow> point3 list \<times> (error + npfloat list)" where
  "interpolate_pointCloud ray points mesh2d nodes_values =
     (let face_indexes = intersects_first ray points;
          (points', face_indexes') =
             (if -1 \<in> set face_indexes
              then retry_loop ray [i \<leftarrow> [0..<length face_indexes]. face_indexes ! i = -1]
                     (points, face_indexes)
              else (points, face_indexes))
      in (points', interpolate_loop mesh2d nodes_values face_indexes' (map drop_z points')))"

section \<open>Structured grid\<close>

text \<open>\<open>a.reshape(r, c)\<close> of a flat array and \<open>.T\<close> of an \<open>r\<close> by \<open>c\<close> array.\<close>

definition reshape :: "nat \<Rightarrow> nat \<Rightarrow> 'a list \<Rightarrow> error + 'a list list" where
  "reshape r c a =
     (if length a = r * c then Inr (map (\<lambda>i. take c (drop (i * c) a)) [0..<r])
      else Inl ValueError)"

definition transposed :: "nat \<Rightarrow> nat \<Rightarrow> 'a list list \<Rightarrow> 'a list list" where
  "transposed r c a = map (\<lambda>j. map (\<lambda>i. a ! i ! j) [0..<r]) [0..<c]"

text \<open>
  \<open>itertools.product(x, y)\<close> with the column \<open>z = -1\<close> appended by \<open>np.c_\<close>. The product
  of an empty axis is an array of shape \<open>(0, 2)\<close> after \<open>np.c_\<close>, on which
  \<open>np.delete(points, 2, 1)\<close> raises.
\<close>

definition grid_points :: "real list \<Rightarrow> real list \<Rightarrow> point3 list" where
  "grid_points x y = map (\<lambda>(a, b). (a, b, - 1)) (List.product x y)"

text \<open>
  \<open>generate_grd\<close> from its two axes on: \<open>x\<close> and \<open>y\<close> are what \<open>np.arange\<close> returned for
  the corners and resolutions (\<open>seissol2hysea\<close> builds the points and reshapes the
  result in the same way, from axes of any origin). The result is what is handed to
  \<open>grdwrite\<close>.
\<close>

definition generate_grd :: "(point3 \<Rightarrow> int) \<Rightarrow> mesh \<Rightarrow> npfloat list \<Rightarrow> real list \<Rightarrow> real list
                              \<Rightarrow> error + (real list \<times> real list \<times> npfloat list list)" where
  "generate_grd ray mesh2d nodes_values x y =
     (let Nrow = length y;
          Ncolumn = length x;
          points = grid_points x y
      in if points = [] then Inl IndexError
         else
           bnd (snd (interpolate_pointCloud ray points mesh2d nodes_values))
             (\<lambda>interpolated_values.
           bnd (reshape Ncolumn Nrow interpolated_values) (\<lambda>a.
             Inr (x, y, transposed Ncolumn Nrow a))))"

section \<open>Node values from face values\<close>

text \<open>
  The loop \<open>for j in range(0, len(shared_faces))\<close> with its two accumulators. Both start
  as the Python float \<open>0.0\<close>; the first addition of a NumPy value makes them \<open>float64\<close>.
\<close>

fun accumulate_faces :: "real list \<Rightarrow> real list list \<Rightarrow> int \<Rightarrow> int list \<Rightarrow> real \<times> real
                           \<Rightarrow> error + real \<times> real" where
  "accumulate_faces area_triangles values instant [] (value_acum, total_shared_area) =
     Inr (value_acum, total_shared_area)"
| "accumulate_faces area_triangles values instant (f # shared_faces)
       (value_acum, total_shared_area) =
     bnd (py_index area_triangles f) (\<lambda>area_j.
     bnd (py_index values instant) (\<lambda>values_instant.
     bnd (py_index values_instant f) (\<lambda>v_j.
       accumulate_faces area_triangles values instant shared_faces
         (value_acum + v_j * area_j, total_shared_area + area_j))))"

text \<open>
  One pass of the loop over the vertices, from the row \<open>mesh3d.vertex_faces[i]\<close> on. With
  no shared face the division is \<open>0.0 / 0.0\<close> on Python floats, which raises; after at
  least one addition it is a \<open>float64\<close> division, which does not.
\<close>

definition node_value :: "real list \<Rightarrow> real list list \<Rightarrow> int \<Rightarrow> int list \<Rightarrow> error + npfloat" where
  "node_value area_triangles values instant vertex_faces_i =
     (let shared_faces = filter (\<lambda>f. f \<noteq> -1) vertex_faces_i
      in bnd (accumulate_faces area_triangles values instant shared_faces (0, 0))
           (\<lambda>(value_acum, total_shared_area).
              if shared_faces = [] then Inl ZeroDivisionError
              else Inr (np_div value_acum total_shared_area)))"

fun nodes_loop :: "real list \<Rightarrow> real list list \<Rightarrow> int \<Rightarrow> int list list \<Rightarrow> nat list
                     \<Rightarrow> error + npfloat list" where
  "nodes_loop area_triangles values instant vertex_faces [] = Inr []"
| "nodes_loop area_triangles values instant vertex_faces (i # rest) =
     bnd (py_index vertex_faces (int i)) (\<lambda>vertex_faces_i.
     bnd (node_value area_triangles values instant vertex_faces_i) (\<lambda>final_node_value.
     bnd (nodes_loop area_triangles values instant vertex_faces rest) (\<lambda>nodes_value.
       Inr (final_node_value # nodes_value))))"

text \<open>
  \<open>assign_nodes_values\<close>. \<open>values\<close> is what \<open>sx.ReadData(variable)\<close> returned;
  \<open>area_faces\<close> and \<open>vertex_faces\<close> are the attributes of that name which trimesh
  derives for \<open>mesh3d\<close> (\<open>vertex_faces\<close> has one row per vertex, padded with \<open>-1\<close>). The
  result is the array \<open>nodes_value\<close> that the function saves; an exception leaves
  nothing saved.
\<close>

definition assign_nodes_values :: "real list list \<Rightarrow> mesh \<Rightarrow> real list \<Rightarrow> int list list \<Rightarrow> int
                                     \<Rightarrow> error + npfloat list" where
  "assign_nodes_values values mesh3d area_faces vertex_faces instant =
     nodes_loop area_faces values instant vertex_faces [0..<length (vertices mesh3d)]"

text \<open>The faces of a mesh that have vertex \<open>v\<close> among their three indices, in order.\<close>

definition incident_faces :: "mesh \<Rightarrow> nat \<Rightarrow> nat list" where
  "incident_faces m v =
     [f \<leftarrow> [0..<length (faces m)].
        (case faces m ! f of (n0, n1, n2) \<Rightarrow> n0 = int v \<or> n1 = int v \<or> n2 = int v)]"

section \<open>Reprojection\<close>

text \<open>
  \<open>transformer.transform\<close> of pyproj is a library function. The parameter \<open>T\<close> stands for
  the transformer of the given pair of reference systems on one coordinate pair;
  \<open>transform\<close> applies it to two arrays element by element.
\<close>

definition transform :: "(point2 \<Rightarrow> point2) \<Rightarrow> real list \<Rightarrow> real list \<Rightarrow> real list \<times> real list" where
  "transform T x y = (map (\<lambda>p. fst (T p)) (zip x y), map (\<lambda>p. snd (T p)) (zip x y))"

definition mesh2dCRSconversion :: "(point2 \<Rightarrow> point2) \<Rightarrow> mesh \<Rightarrow> mesh" where
  "mesh2dCRSconversion T mesh2d =
     (let nodes_utm = vertices mesh2d;
          x = map (\<lambda>(a, b, c). a) nodes_utm;
          y = map (\<lambda>(a, b, c). b) nodes_utm;
          (xnew, ynew) = transform T x y;
          nodes_wgs = map (\<lambda>(m, n). (m, n, 0)) (zip xnew ynew)
      in \<lparr>vertices = nodes_wgs, faces = faces mesh2d\<rparr>)"





section \<open>A mesh for the examples\<close>

text \<open>
  The unit square cut into two triangles along a diagonal, and an intersector for it
  that finds a point strictly inside one of the two triangles and misses every other
  point, the points of the edges included.
\<close>

definition square_mesh :: mesh where
  "square_mesh = \<lparr>vertices = [(0, 0, 0), (1, 0, 0), (0, 1, 0), (1, 1, 0)],
                   faces = [(0, 1, 2), (1, 3, 2)]\<rparr>"

definition square_ray :: "point3 \<Rightarrow> int" where
  "square_ray p = (case p of (x, y, z) \<Rightarrow>
     if 0 < x \<and> 0 < y \<and> x + y < 1 then 0
     else if x < 1 \<and> y < 1 \<and> 1 < x + y then 1
     else -1)"


text \<open>Two triangles of area 1 that share an edge.\<close>

definition two_unit_triangles :: mesh where
  "two_unit_triangles = \<lparr>vertices = [(0, 0, 0), (2, 0, 0), (0, 1, 0), (2, 1, 0)],
                          faces = [(0, 1, 2), (1, 3, 2)]\<rparr>"

text \<open>The unit square with a fifth vertex that no face uses.\<close>

definition square_and_loose_vertex :: mesh where
  "square_and_loose_vertex = \<lparr>vertices = [(0, 0, 0), (1, 0, 0), (0, 1, 0), (1, 1, 0), (5, 5, 0)],
                               faces = [(0, 1, 2), (1, 3, 2)]\<rparr>"

section \<open>Auxiliary facts about the loops\<close>

lemma bnd_Inr [simp]: "bnd (Inr v) k = k v"
  by (simp add: bnd_def)

lemma bnd_Inl [simp]: "bnd (Inl e) k = Inl e"
  by (simp add: bnd_def)

lemma bnd_eq_Inr: "bnd r k = Inr w \<longleftrightarrow> (\<exists>v. r = Inr v \<and> k v = Inr w)"
  by (cases r) simp_all

lemma retry_loop_length:
  "retry_loop ray pos (points, fis) = (points', fis')
   \<Longrightarrow> length points' = length points \<and> length fis' = length fis"
  by (induction pos arbitrary: points fis) (auto simp: Let_def)

lemma retry_loop_nth:
  assumes "distinct pos" and "\<forall>i \<in> set pos. i < length points" and "length fis = length points"
    and "j < length points"
  shows "fst (retry_loop ray pos (points, fis)) ! j
           = (if j \<in> set pos then add_eps (points ! j) else points ! j)
       \<and> snd (retry_loop ray pos (points, fis)) ! j
           = (if j \<in> set pos then ray (add_eps (points ! j)) else fis ! j)"
  using assms
proof (induction pos arbitrary: points fis)
  case Nil
  then show ?case by simp
next
  case (Cons i pos)
  let ?p = "add_eps (points ! i)"
  have step: "retry_loop ray (i # pos) (points, fis)
                = retry_loop ray pos (points[i := ?p], fis[i := ray ?p])"
    by (simp add: Let_def intersects_first_def)
  have ih: "fst (retry_loop ray pos (points[i := ?p], fis[i := ray ?p])) ! j
           = (if j \<in> set pos then add_eps (points[i := ?p] ! j) else points[i := ?p] ! j)
       \<and> snd (retry_loop ray pos (points[i := ?p], fis[i := ray ?p])) ! j
           = (if j \<in> set pos then ray (add_eps (points[i := ?p] ! j)) else fis[i := ray ?p] ! j)"
    using Cons.prems by (intro Cons.IH) auto
  show ?case
  proof (cases "j = i")
    case True
    then have "j \<notin> set pos" using Cons.prems(1) by simp
    with ih True Cons.prems show ?thesis unfolding step by simp
  next
    case False
    with ih Cons.prems show ?thesis unfolding step by simp
  qed
qed

lemma interpolate_loop_Inr:
  "interpolate_loop m nv fis ps = Inr vs \<Longrightarrow> length ps = length fis
   \<Longrightarrow> length vs = length fis
       \<and> (\<forall>k < length fis. interpolate_at m nv (fis ! k) (ps ! k) = Inr (vs ! k))"
proof (induction m nv fis ps arbitrary: vs rule: interpolate_loop.induct)
  case (1 m nv ps)
  then show ?case by simp
next
  case (2 m nv fi fis)
  then show ?case by simp
next
  case (3 m nv fi fis pt ps)
  from "3.prems"(1) obtain v ws where v: "interpolate_at m nv fi pt = Inr v"
    and ws: "interpolate_loop m nv fis ps = Inr ws" and vs: "vs = v # ws"
    by (auto simp: bnd_eq_Inr)
  from "3.IH" [OF ws] "3.prems"(2)
  have ih: "length ws = length fis
     \<and> (\<forall>k < length fis. interpolate_at m nv (fis ! k) (ps ! k) = Inr (ws ! k))"
    by simp
  show ?case
  proof (intro conjI allI impI)
    show "length vs = length (fi # fis)" using ih vs by simp
  next
    fix k assume "k < length (fi # fis)"
    then show "interpolate_at m nv ((fi # fis) ! k) ((pt # ps) ! k) = Inr (vs ! k)"
      using ih v vs by (cases k) simp_all
  qed
qed



lemma interpolate_pointCloud_eq:
  "interpolate_pointCloud ray points m nv =
     (map (\<lambda>p. if ray p = -1 then add_eps p else p) points,
      interpolate_loop m nv (map (\<lambda>p. if ray p = -1 then ray (add_eps p) else ray p) points)
        (map (\<lambda>p. drop_z (if ray p = -1 then add_eps p else p)) points))"
proof (cases "-1 \<in> set (map ray points)")
  case False
  have no: "ray p \<noteq> -1" if "p \<in> set points" for p
  proof
    assume "ray p = -1"
    with that have "-1 \<in> ray ` set points" by (metis imageI)
    with False show False by simp
  qed
  have a: "map (\<lambda>p. if ray p = -1 then add_eps p else p) points = points"
    using no by (induction points) auto
  have b: "map (\<lambda>p. if ray p = -1 then ray (add_eps p) else ray p) points = map ray points"
    using no by (induction points) auto
  have c: "map (\<lambda>p. drop_z (if ray p = -1 then add_eps p else p)) points = map drop_z points"
    using no by (induction points) auto
  show ?thesis
    unfolding a b c using False
    by (simp add: interpolate_pointCloud_def intersects_first_def)
next
  case True
  define pos where "pos = [i \<leftarrow> [0..<length points]. map ray points ! i = -1]"
  define st where "st = retry_loop ray pos (points, map ray points)"
  have d: "distinct pos" by (simp add: pos_def)
  have r: "\<forall>i \<in> set pos. i < length points" by (simp add: pos_def)
  have mem: "\<And>j. j < length points \<Longrightarrow> j \<in> set pos \<longleftrightarrow> ray (points ! j) = -1"
    by (simp add: pos_def)
  have len: "length (fst st) = length points \<and> length (snd st) = length points"
    using retry_loop_length [of ray pos points "map ray points" "fst st" "snd st"]
    by (simp add: st_def)
  have nth: "\<And>j. j < length points \<Longrightarrow>
      fst st ! j = (if ray (points ! j) = -1 then add_eps (points ! j) else points ! j)
      \<and> snd st ! j = (if ray (points ! j) = -1 then ray (add_eps (points ! j)) else ray (points ! j))"
    using retry_loop_nth [OF d r, of "map ray points" _ ray] mem
    by (simp add: st_def)
  have a: "fst st = map (\<lambda>p. if ray p = -1 then add_eps p else p) points"
    using len nth by (intro nth_equalityI) simp_all
  have b: "snd st = map (\<lambda>p. if ray p = -1 then ray (add_eps p) else ray p) points"
    using len nth by (intro nth_equalityI) simp_all
  have "interpolate_pointCloud ray points m nv
          = (fst st, interpolate_loop m nv (snd st) (map drop_z (fst st)))"
    using True
    by (simp add: interpolate_pointCloud_def intersects_first_def st_def pos_def
        case_prod_beta Let_def)
  then show ?thesis
    unfolding a b by (simp add: comp_def)
qed

lemma eps_bounds: "0 < eps \<and> eps < 1 / 4"
  by (simp add: eps_def)

lemma py_index_nat: "i < length a \<Longrightarrow> py_index a (int i) = Inr (a ! i)"
  by (simp add: py_index_def)






lemma grid_points_nth:
  assumes "row < length y" and "col < length x"
  shows "col * length y + row < length (grid_points x y)"
    and "grid_points x y ! (col * length y + row) = (x ! col, y ! row, -1)"
proof -
  have "col * length y + row < Suc col * length y"
    using assms(1) by simp
  also have "\<dots> \<le> length x * length y"
    using assms(2) by (simp add: Suc_leI mult_le_mono1 del: mult_Suc)
  finally have lt: "col * length y + row < length x * length y" .
  then show "col * length y + row < length (grid_points x y)"
    by (simp add: grid_points_def)
  have pos: "0 < length y"
    using assms(1) by linarith
  have dv: "(col * length y + row) div length y = col"
    using assms(1) pos by (simp add: add.commute [of "col * length y"])
  have md: "(col * length y + row) mod length y = row"
    using assms(1) pos by (simp add: add.commute [of "col * length y"])
  from product_nth [OF lt] lt
  show "grid_points x y ! (col * length y + row) = (x ! col, y ! row, -1)"
    unfolding dv md by (simp add: grid_points_def)
qed

lemma reshape_transposed_nth:
  assumes "length a = c * r" and "row < r" and "col < c"
  shows "\<exists>b. reshape c r a = Inr b \<and> length (transposed c r b) = r
            \<and> (\<forall>i < r. length (transposed c r b ! i) = c)
            \<and> transposed c r b ! row ! col = a ! (col * r + row)"
proof -
  define b where "b = map (\<lambda>i. take r (drop (i * r) a)) [0..<c]"
  have b: "reshape c r a = Inr b"
    using assms(1) by (simp add: reshape_def b_def)
  have "col * r + row < Suc col * r"
    using assms(2) by simp
  also have "\<dots> \<le> c * r"
    using assms(3) by (simp add: Suc_leI mult_le_mono1 del: mult_Suc)
  finally have lt: "col * r + row < length a"
    using assms(1) by simp
  have "b ! col ! row = a ! (col * r + row)"
    using assms(2,3) lt by (simp add: b_def)
  then have "transposed c r b ! row ! col = a ! (col * r + row)"
    using assms(2,3) by (simp add: transposed_def)
  with b show ?thesis
    by (simp add: transposed_def)
qed







lemma accumulate_faces_sums:
  assumes "0 \<le> instant" and "instant < int (length values)"
    and "\<forall>f \<in> set fs. 0 \<le> f \<and> f < int (length area) \<and> f < int (length (values ! nat instant))"
  shows "accumulate_faces area values instant fs (acc, tot) =
           Inr (acc + (\<Sum>f\<leftarrow>fs. values ! nat instant ! nat f * area ! nat f),
                tot + (\<Sum>f\<leftarrow>fs. area ! nat f))"
  using assms(3)
proof (induction fs arbitrary: acc tot)
  case Nil
  then show ?case by simp
next
  case (Cons f fs)
  have a: "py_index area f = Inr (area ! nat f)"
    using Cons.prems by (simp add: py_index_def)
  have b: "py_index values instant = Inr (values ! nat instant)"
    using assms(1,2) by (simp add: py_index_def)
  have c: "py_index (values ! nat instant) f = Inr (values ! nat instant ! nat f)"
    using Cons.prems by (simp add: py_index_def)
  have "\<forall>f \<in> set fs. 0 \<le> f \<and> f < int (length area) \<and> f < int (length (values ! nat instant))"
    using Cons.prems by simp
  from Cons.IH [OF this] show ?case
    by (simp add: a b c add.assoc)
qed

lemma py_index_error: "py_index a i = Inl e \<Longrightarrow> e = IndexError"
  by (auto simp: py_index_def split: if_splits)

lemma bnd_eq_Inl: "bnd r k = Inl e \<longleftrightarrow> r = Inl e \<or> (\<exists>v. r = Inr v \<and> k v = Inl e)"
  by (cases r) simp_all

lemma accumulate_faces_error:
  "accumulate_faces area values instant fs st = Inl e \<Longrightarrow> e = IndexError"
proof (induction area "values" instant fs st rule: accumulate_faces.induct)
  case (1 area_triangles field instant value_acum total_shared_area)
  then show ?case by simp
next
  case (2 area_triangles field instant f shared_faces value_acum total_shared_area)
  from "2.prems" show ?case
    by (auto simp: bnd_eq_Inl dest: py_index_error "2.IH")
qed

lemma node_value_error:
  "node_value area values instant row = Inl e \<Longrightarrow> e = IndexError \<or> e = ZeroDivisionError"
  by (auto simp: node_value_def Let_def bnd_eq_Inl split: if_splits dest: accumulate_faces_error)

lemma nodes_loop_error:
  "nodes_loop area values instant vf idx = Inl e \<Longrightarrow> e = IndexError \<or> e = ZeroDivisionError"
proof (induction idx)
  case Nil
  then show ?case by simp
next
  case (Cons i idx)
  from Cons.prems show ?case
    by (auto simp: bnd_eq_Inl dest: py_index_error node_value_error Cons.IH)
qed

lemma nodes_loop_Inr:
  assumes "\<forall>i \<in> set idx. i < length vf \<and> node_value area values instant (vf ! i) = Inr (h i)"
  shows "nodes_loop area values instant vf idx = Inr (map h idx)"
  using assms by (induction idx) (simp_all add: py_index_nat)

lemma nodes_loop_Inl:
  assumes "i \<in> set idx" and "i < length vf"
    and "\<exists>e. node_value area values instant (vf ! i) = Inl e"
  shows "\<exists>e. nodes_loop area values instant vf idx = Inl e"
  using assms(1)
proof (induction idx)
  case Nil
  then show ?case by simp
next
  case (Cons j idx)
  show ?case
  proof (cases "nodes_loop area values instant vf (j # idx)")
    case (Inl e)
    then show ?thesis by blast
  next
    case (Inr vs)
    then obtain row v ws where "py_index vf (int j) = Inr row"
      and v: "node_value area values instant row = Inr v"
      and ws: "nodes_loop area values instant vf idx = Inr ws"
      by (auto simp: bnd_eq_Inr)
    show ?thesis
    proof (cases "i = j")
      case True
      with assms(2) \<open>py_index vf (int j) = Inr row\<close> have "row = vf ! i"
        by (simp add: py_index_nat)
      with v assms(3) show ?thesis by simp
    next
      case False
      with Cons.prems have "i \<in> set idx" by simp
      from Cons.IH [OF this] ws show ?thesis by simp
    qed
  qed
qed


lemma sum_list_mset_cong:
  fixes g :: "'a \<Rightarrow> real"
  assumes "mset a = mset b"
  shows "sum_list (map g a) = sum_list (map g b)"
proof -
  have "sum_list (map g a) = sum_mset (image_mset g (mset a))"
    by (metis mset_map sum_mset_sum_list)
  also have "\<dots> = sum_mset (image_mset g (mset b))"
    using assms by simp
  also have "\<dots> = sum_list (map g b)"
    by (metis mset_map sum_mset_sum_list)
  finally show ?thesis .
qed

lemma incident_faces_bound: "f \<in> set (incident_faces m v) \<Longrightarrow> f < length (faces m)"
  by (simp add: incident_faces_def)

lemma node_value_mean:
  assumes contract: "mset (filter (\<lambda>f. f \<noteq> -1) row) = mset (map int inc)"
    and bound: "\<forall>f \<in> set inc. f < length area \<and> f < length (field ! nat instant)"
    and inst: "0 \<le> instant" "instant < int (length field)"
    and ne: "inc \<noteq> []"
  shows "node_value area field instant row =
           Inr (np_div (\<Sum>f\<leftarrow>inc. field ! nat instant ! f * area ! f) (\<Sum>f\<leftarrow>inc. area ! f))"
proof -
  let ?fs = "filter (\<lambda>f. f \<noteq> -1) row"
  have "set ?fs = set (map int inc)"
    using contract by (metis set_mset_mset)
  then have valid: "\<forall>f \<in> set ?fs. 0 \<le> f \<and> f < int (length area)
                      \<and> f < int (length (field ! nat instant))"
    using bound by auto
  have nonempty: "?fs \<noteq> []"
    using contract ne by (metis map_is_Nil_conv mset_zero_iff)
  have s1: "(\<Sum>f\<leftarrow>?fs. field ! nat instant ! nat f * area ! nat f)
              = (\<Sum>f\<leftarrow>inc. field ! nat instant ! f * area ! f)"
    using sum_list_mset_cong [OF contract, of "\<lambda>f. field ! nat instant ! nat f * area ! nat f"]
    by (simp add: comp_def)
  have s2: "(\<Sum>f\<leftarrow>?fs. area ! nat f) = (\<Sum>f\<leftarrow>inc. area ! f)"
    using sum_list_mset_cong [OF contract, of "\<lambda>f. area ! nat f"]
    by (simp add: comp_def)
  from accumulate_faces_sums [OF inst valid, of 0 0] nonempty show ?thesis
    by (simp add: node_value_def Let_def s1 s2)
qed

lemma node_value_valid_error:
  assumes "0 \<le> instant" and "instant < int (length field)"
    and "\<forall>f \<in> set row. f \<noteq> -1 \<longrightarrow>
           0 \<le> f \<and> f < int (length area) \<and> f < int (length (field ! nat instant))"
    and "node_value area field instant row = Inl e"
  shows "e = ZeroDivisionError"
proof -
  have "\<forall>f \<in> set (filter (\<lambda>f. f \<noteq> -1) row).
          0 \<le> f \<and> f < int (length area) \<and> f < int (length (field ! nat instant))"
    using assms(3) by simp
  from accumulate_faces_sums [OF assms(1,2) this, of 0 0] assms(4) show ?thesis
    by (simp add: node_value_def Let_def split: if_splits)
qed

lemma nodes_loop_valid_error:
  assumes "0 \<le> instant" and "instant < int (length field)"
    and "\<forall>row \<in> set vf. \<forall>f \<in> set row. f \<noteq> -1 \<longrightarrow>
           0 \<le> f \<and> f < int (length area) \<and> f < int (length (field ! nat instant))"
    and "\<forall>i \<in> set idx. i < length vf"
    and "nodes_loop area field instant vf idx = Inl e"
  shows "e = ZeroDivisionError"
  using assms(4,5)
proof (induction idx)
  case Nil
  then show ?case by simp
next
  case (Cons i idx)
  from Cons.prems(1) have i: "i < length vf" by simp
  then have row: "py_index vf (int i) = Inr (vf ! i)"
    by (simp add: py_index_nat)
  have valid: "\<forall>f \<in> set (vf ! i). f \<noteq> -1 \<longrightarrow>
           0 \<le> f \<and> f < int (length area) \<and> f < int (length (field ! nat instant))"
    using assms(3) nth_mem [OF i] by blast
  show ?case
  proof (cases "node_value area field instant (vf ! i)")
    case (Inl e')
    with Cons.prems(2) row have "e = e'" by simp
    with node_value_valid_error [OF assms(1,2) valid Inl] show ?thesis by simp
  next
    case (Inr w)
    with Cons.prems(2) row have "nodes_loop area field instant vf idx = Inl e"
      by (simp add: bnd_eq_Inl)
    with Cons.IH Cons.prems(1) show ?thesis by simp
  qed
qed

section \<open>Properties of the barycentric coordinates\<close>



section \<open>Properties of the point location\<close>



text \<open>
  Claim C5, as stated, fails: with the intersector missing the point \<open>(5, 5)\<close> both
  before and after the perturbation, \<open>interpolate_pointCloud\<close> raises nothing, least of
  all \<open>PointOutsideMeshError\<close>; it returns a value for the point.
\<close>

theorem retry_miss_counterexample:
  "square_ray (5, 5, -1) = -1 \<and> square_ray (add_eps (5, 5, -1)) = -1
   \<and> snd (interpolate_pointCloud square_ray [(5, 5, -1)] square_mesh
            [Finite 0, Finite 0, Finite 0, Finite 10]) = Inr [Finite (90 + 20 * eps)]
   \<and> snd (interpolate_pointCloud square_ray [(5, 5, -1)] square_mesh
            [Finite 0, Finite 0, Finite 0, Finite 10]) \<noteq> Inl PointOutsideMeshError"
proof -
  have r1: "square_ray (5, 5, -1) = -1"
    by (simp add: square_ray_def)
  have r2: "square_ray (add_eps (5, 5, -1)) = -1"
    using eps_bounds by (simp add: square_ray_def add_eps_def)
  have v: "interpolate_at square_mesh [Finite 0, Finite 0, Finite 0, Finite 10] (-1)
             (drop_z (add_eps (5, 5, -1))) = Inr (Finite (90 + 20 * eps))"
    by (simp add: interpolate_at_def py_index_def square_mesh_def interpolate_in_face_def
        getBarycentricCoord_def drop_z_def add_eps_def vsub_def dot_def Let_def)
  have "snd (interpolate_pointCloud square_ray [(5, 5, -1)] square_mesh
            [Finite 0, Finite 0, Finite 0, Finite 10]) = Inr [Finite (90 + 20 * eps)]"
    using r1 r2 v by (simp add: interpolate_pointCloud_eq)
  with r1 r2 show ?thesis by simp
qed

text \<open>
  Claim C5, amended. For a query point whose first ray cast returns \<open>-1\<close>,
  \<open>interpolate_pointCloud\<close> adds the fixed \<open>eps = 0.0000925925925926\<close> to each of its three
  coordinates and casts the ray once more, from the perturbed point; the value returned
  for the point is interpolated at the perturbed \<open>(x, y)\<close> in the face of the index that
  this one second cast returns.
\<close>

theorem retry_once:
  assumes "k < length points"
    and "ray (points ! k) = -1"
    and "snd (interpolate_pointCloud ray points m nv) = Inr vals"
  shows "(case points ! k of (x, y, z) \<Rightarrow>
           interpolate_at m nv
             (ray (x + 925925925926 / 10 ^ 16, y + 925925925926 / 10 ^ 16,
                   z + 925925925926 / 10 ^ 16))
             (x + 925925925926 / 10 ^ 16, y + 925925925926 / 10 ^ 16) = Inr (vals ! k))"
proof -
  let ?fis = "map (\<lambda>p. if ray p = -1 then ray (add_eps p) else ray p) points"
  let ?ps = "map (\<lambda>p. drop_z (if ray p = -1 then add_eps p else p)) points"
  from assms(3) have "interpolate_loop m nv ?fis ?ps = Inr vals"
    by (simp add: interpolate_pointCloud_eq)
  from interpolate_loop_Inr [OF this]
  have "interpolate_at m nv (?fis ! k) (?ps ! k) = Inr (vals ! k)"
    using assms(1) by simp
  then have "interpolate_at m nv (ray (add_eps (points ! k))) (drop_z (add_eps (points ! k)))
          = Inr (vals ! k)"
    using assms(1,2) by simp
  then show ?thesis
    by (cases "points ! k") (simp add: add_eps_def drop_z_def eps_def)
qed

theorem retry_once_witness:
  "(0::nat) < length [(0, 0, -1) :: point3] \<and> square_ray ([(0, 0, -1)] ! 0) = -1
   \<and> snd (interpolate_pointCloud square_ray [(0, 0, -1)] square_mesh
            [Finite 1, Finite 2, Finite 3, Finite 10]) = Inr [Finite (1 + 3 * eps)]
   \<and> interpolate_at square_mesh [Finite 1, Finite 2, Finite 3, Finite 10]
        (square_ray (0 + 925925925926 / 10 ^ 16, 0 + 925925925926 / 10 ^ 16,
                     -1 + 925925925926 / 10 ^ 16))
        (0 + 925925925926 / 10 ^ 16, 0 + 925925925926 / 10 ^ 16) = Inr (Finite (1 + 3 * eps))"
proof -
  have h: "(0::nat) < length [(0, 0, -1) :: point3]" by simp
  have r1: "square_ray ([(0, 0, -1)] ! 0) = -1"
    by (simp add: square_ray_def)
  have r2: "square_ray (add_eps (0, 0, -1)) = 0"
    using eps_bounds by (simp add: square_ray_def add_eps_def)
  have v: "interpolate_at square_mesh [Finite 1, Finite 2, Finite 3, Finite 10] 0
             (drop_z (add_eps (0, 0, -1))) = Inr (Finite (1 + 3 * eps))"
    by (simp add: interpolate_at_def py_index_def square_mesh_def interpolate_in_face_def
        getBarycentricCoord_def drop_z_def add_eps_def vsub_def dot_def Let_def)
  have res: "snd (interpolate_pointCloud square_ray [(0, 0, -1)] square_mesh
            [Finite 1, Finite 2, Finite 3, Finite 10]) = Inr [Finite (1 + 3 * eps)]"
    using r1 r2 v by (simp add: interpolate_pointCloud_eq)
  from retry_once [OF h r1 res] h r1 res show ?thesis
    by simp
qed



section \<open>Interpolation at the vertices\<close>




section \<open>Layout of the structured grid\<close>

text \<open>
  Claim C4. For an x-axis of \<open>Ncolumn\<close> values and a y-axis of \<open>Nrow\<close> values the grid
  points are generated with x outer and y inner: the point of x-index \<open>col\<close> and y-index
  \<open>row\<close> is at the flat index \<open>col * Nrow + row\<close>. When the interpolation of the points
  returns, \<open>generate_grd\<close> returns too, with an array of \<open>Nrow\<close> rows of \<open>Ncolumn\<close> values
  whose element \<open>[row][col]\<close> is the flat result at that index, and this is the value
  interpolated for the point of x-index \<open>col\<close> and y-index \<open>row\<close>.
\<close>

theorem generate_grd_layout:
  assumes ok: "snd (interpolate_pointCloud ray (grid_points x y) m nv) = Inr vals"
    and row: "row < length y" and col: "col < length x"
  shows "\<exists>z. generate_grd ray m nv x y = Inr (x, y, z)
           \<and> length z = length y \<and> (\<forall>i < length y. length (z ! i) = length x)
           \<and> grid_points x y ! (col * length y + row) = (x ! col, y ! row, -1)
           \<and> z ! row ! col = vals ! (col * length y + row)
           \<and> (let p = (x ! col, y ! row, -1);
                   p' = (if ray p = -1 then add_eps p else p)
               in interpolate_at m nv (if ray p = -1 then ray p' else ray p) (drop_z p')
                    = Inr (z ! row ! col))"
proof -
  let ?pts = "grid_points x y"
  let ?n = "col * length y + row"
  let ?fis = "map (\<lambda>p. if ray p = -1 then ray (add_eps p) else ray p) ?pts"
  let ?ps = "map (\<lambda>p. drop_z (if ray p = -1 then add_eps p else p)) ?pts"
  note g = grid_points_nth [OF row col]
  from ok have loop: "interpolate_loop m nv ?fis ?ps = Inr vals"
    by (simp add: interpolate_pointCloud_eq)
  from interpolate_loop_Inr [OF loop]
  have len: "length vals = length ?pts"
    and each: "\<forall>k < length ?pts. interpolate_at m nv (?fis ! k) (?ps ! k) = Inr (vals ! k)"
    by simp_all
  have lenv: "length vals = length x * length y"
    using len by (simp add: grid_points_def)
  from reshape_transposed_nth [OF lenv row col]
  obtain b where b: "reshape (length x) (length y) vals = Inr b"
    and lz: "length (transposed (length x) (length y) b) = length y"
    and lr: "\<forall>i < length y. length (transposed (length x) (length y) b ! i) = length x"
    and el: "transposed (length x) (length y) b ! row ! col = vals ! ?n"
    by blast
  have ne: "?pts \<noteq> []"
    using g(1) by auto
  have grd: "generate_grd ray m nv x y = Inr (x, y, transposed (length x) (length y) b)"
    using ne ok b by (simp add: generate_grd_def Let_def)
  from each g(1) have "interpolate_at m nv (?fis ! ?n) (?ps ! ?n) = Inr (vals ! ?n)"
    by blast
  then have at: "interpolate_at m nv
                   (if ray (?pts ! ?n) = -1 then ray (add_eps (?pts ! ?n)) else ray (?pts ! ?n))
                   (drop_z (if ray (?pts ! ?n) = -1 then add_eps (?pts ! ?n) else ?pts ! ?n))
                 = Inr (vals ! ?n)"
    using g(1) by simp
  have "let p = (x ! col, y ! row, -1);
            p' = (if ray p = -1 then add_eps p else p)
        in interpolate_at m nv (if ray p = -1 then ray p' else ray p) (drop_z p')
             = Inr (transposed (length x) (length y) b ! row ! col)"
    using at unfolding g(2) el Let_def by (cases "ray (x ! col, y ! row, -1) = -1") simp_all
  with grd lz lr g(2) el show ?thesis
    by blast
qed


theorem generate_grd_layout_witness:
  "snd (interpolate_pointCloud square_ray (grid_points [1/8, 1/4, 1/2] [1/8, 1/4]) square_mesh
          [Finite 1, Finite 2, Finite 3, Finite 10])
     = Inr [Finite (11/8), Finite (13/8), Finite (3/2), Finite (7/4), Finite (7/4), Finite 2]
   \<and> (1::nat) < length [1/8, 1/4 :: real] \<and> (2::nat) < length [1/8, 1/4, 1/2 :: real]
   \<and> grid_points [1/8, 1/4, 1/2] [1/8, 1/4] ! 5 = (1/2, 1/4, -1)
   \<and> (\<exists>z. generate_grd square_ray square_mesh [Finite 1, Finite 2, Finite 3, Finite 10]
               [1/8, 1/4, 1/2] [1/8, 1/4] = Inr ([1/8, 1/4, 1/2], [1/8, 1/4], z)
           \<and> length z = 2 \<and> z ! 1 ! 2 = Finite 2)"
proof -
  have pts: "grid_points [1/8, 1/4, 1/2] [1/8, 1/4]
               = [(1/8, 1/8, -1), (1/8, 1/4, -1), (1/4, 1/8, -1), (1/4, 1/4, -1),
                  (1/2, 1/8, -1), (1/2, 1/4, -1)]"
    by (simp add: grid_points_def)
  have at: "interpolate_at square_mesh [Finite 1, Finite 2, Finite 3, Finite 10] 0 (px, py)
              = Inr (Finite (1 + px + 2 * py))" for px py
    by (simp add: interpolate_at_def py_index_def square_mesh_def interpolate_in_face_def
        getBarycentricCoord_def drop_z_def vsub_def dot_def Let_def)
  have ok: "snd (interpolate_pointCloud square_ray (grid_points [1/8, 1/4, 1/2] [1/8, 1/4])
                   square_mesh [Finite 1, Finite 2, Finite 3, Finite 10])
     = Inr [Finite (11/8), Finite (13/8), Finite (3/2), Finite (7/4), Finite (7/4), Finite 2]"
    unfolding pts by (simp add: interpolate_pointCloud_eq square_ray_def drop_z_def at)
  have row: "(1::nat) < length [1/8, 1/4 :: real]" by simp
  have col: "(2::nat) < length [1/8, 1/4, 1/2 :: real]" by simp
  from generate_grd_layout [OF ok row col]
  have "grid_points [1/8, 1/4, 1/2] [1/8, 1/4] ! 5 = (1/2, 1/4, -1)
    \<and> (\<exists>z. generate_grd square_ray square_mesh [Finite 1, Finite 2, Finite 3, Finite 10]
               [1/8, 1/4, 1/2] [1/8, 1/4] = Inr ([1/8, 1/4, 1/2], [1/8, 1/4], z)
           \<and> length z = 2 \<and> z ! 1 ! 2 = Finite 2)"
    by (auto simp: eval_nat_numeral)
  with ok row col show ?thesis by blast
qed

section \<open>Properties of the reprojection\<close>

text \<open>
  Claim C8. \<open>mesh2dCRSconversion\<close> returns a mesh with the faces array of its input and
  as many vertices; vertex \<open>i\<close> of the result is the transform of the \<open>(x, y)\<close> of vertex
  \<open>i\<close> of the input and of nothing else, with \<open>z = 0\<close>.
\<close>

theorem mesh2dCRSconversion_frame:
  "faces (mesh2dCRSconversion T m) = faces m
   \<and> length (vertices (mesh2dCRSconversion T m)) = length (vertices m)
   \<and> (\<forall>i < length (vertices m).
         case vertices m ! i of (x, y, z) \<Rightarrow>
           vertices (mesh2dCRSconversion T m) ! i = (fst (T (x, y)), snd (T (x, y)), 0))"
proof -
  have v: "vertices (mesh2dCRSconversion T m)
             = map (\<lambda>(x, y, z). (fst (T (x, y)), snd (T (x, y)), 0)) (vertices m)"
    by (simp add: mesh2dCRSconversion_def transform_def Let_def zip_map_map zip_same_conv_map
        case_prod_beta comp_def)
  have f: "faces (mesh2dCRSconversion T m) = faces m"
    by (simp add: mesh2dCRSconversion_def transform_def Let_def)
  show ?thesis
    unfolding v f by (simp add: case_prod_beta)
qed

theorem mesh2dCRSconversion_frame_witness:
  "faces (mesh2dCRSconversion (\<lambda>(x, y). (x + 2 * y, 3 * y)) square_mesh) = faces square_mesh
   \<and> (3::nat) < length (vertices square_mesh)
   \<and> vertices square_mesh ! 3 = (1, 1, 0)
   \<and> vertices (mesh2dCRSconversion (\<lambda>(x, y). (x + 2 * y, 3 * y)) square_mesh) ! 3 = (3, 3, 0)"
proof -
  have h: "(3::nat) < length (vertices square_mesh)" by (simp add: square_mesh_def)
  have p: "vertices square_mesh ! 3 = (1, 1, 0)" by (simp add: square_mesh_def)
  from mesh2dCRSconversion_frame [of "\<lambda>(x, y). (x + 2 * y, 3 * y)" square_mesh]
  have "faces (mesh2dCRSconversion (\<lambda>(x, y). (x + 2 * y, 3 * y)) square_mesh) = faces square_mesh"
    and "\<forall>i < length (vertices square_mesh).
         case vertices square_mesh ! i of (x, y, z) \<Rightarrow>
           vertices (mesh2dCRSconversion (\<lambda>(x, y). (x + 2 * y, 3 * y)) square_mesh) ! i
             = (fst (x + 2 * y, 3 * y), snd (x + 2 * y, 3 * y), 0)"
    by simp_all
  from this(1) this(2) [rule_format, OF h] h p show ?thesis
    by simp
qed




section \<open>Properties of the node values\<close>

text \<open>
  Claim C1. Let \<open>vertex_faces\<close> list, for every vertex, the faces incident to it (padded
  with \<open>-1\<close>, in any order), with one area per face, an instant of the field in range,
  one field sample per face, and at least one face at every vertex. Then
  \<open>assign_nodes_values\<close> returns one value per vertex, and the value of a vertex \<open>v\<close> with
  nonzero total incident area is the area-weighted mean
  \<open>sum (area f * sample f) / sum (area f)\<close> over exactly the faces incident to \<open>v\<close>. The
  witness is the vertex shared by two triangles of area 1 with samples 10 and 20, whose
  value is 15.
\<close>

theorem assign_nodes_values_weighted_mean:
  assumes rows: "length vertex_faces = length (vertices m)"
    and contract: "\<forall>v < length (vertices m).
        mset (filter (\<lambda>f. f \<noteq> -1) (vertex_faces ! v)) = mset (map int (incident_faces m v))"
    and areas: "length area_faces = length (faces m)"
    and inst: "0 \<le> instant" "instant < int (length field)"
    and fields: "length (field ! nat instant) = length (faces m)"
    and incident: "\<forall>v < length (vertices m). incident_faces m v \<noteq> []"
  shows "\<exists>nodes_value.
           assign_nodes_values field m area_faces vertex_faces instant = Inr nodes_value
           \<and> length nodes_value = length (vertices m)
           \<and> (\<forall>v < length (vertices m).
                 (\<Sum>f\<leftarrow>incident_faces m v. area_faces ! f) \<noteq> 0 \<longrightarrow>
                 nodes_value ! v =
                   Finite ((\<Sum>f\<leftarrow>incident_faces m v. area_faces ! f * field ! nat instant ! f)
                           / (\<Sum>f\<leftarrow>incident_faces m v. area_faces ! f)))"
proof -
  define h where "h v = np_div (\<Sum>f\<leftarrow>incident_faces m v. field ! nat instant ! f * area_faces ! f)
                               (\<Sum>f\<leftarrow>incident_faces m v. area_faces ! f)" for v
  have each: "\<forall>v \<in> set [0..<length (vertices m)].
                v < length vertex_faces
                \<and> node_value area_faces field instant (vertex_faces ! v) = Inr (h v)"
  proof
    fix v assume "v \<in> set [0..<length (vertices m)]"
    then have v: "v < length (vertices m)" by simp
    have bound: "\<forall>f \<in> set (incident_faces m v).
                   f < length area_faces \<and> f < length (field ! nat instant)"
      using areas fields by (simp add: incident_faces_bound)
    from node_value_mean [OF contract [rule_format, OF v] bound inst incident [rule_format, OF v]]
    show "v < length vertex_faces
          \<and> node_value area_faces field instant (vertex_faces ! v) = Inr (h v)"
      using v rows by (simp add: h_def)
  qed
  from nodes_loop_Inr [OF each]
  have res: "assign_nodes_values field m area_faces vertex_faces instant
               = Inr (map h [0..<length (vertices m)])"
    by (simp add: assign_nodes_values_def)
  have "map h [0..<length (vertices m)] ! v =
          Finite ((\<Sum>f\<leftarrow>incident_faces m v. area_faces ! f * field ! nat instant ! f)
                  / (\<Sum>f\<leftarrow>incident_faces m v. area_faces ! f))"
    if "v < length (vertices m)" "(\<Sum>f\<leftarrow>incident_faces m v. area_faces ! f) \<noteq> 0" for v
    using that by (simp add: h_def mult.commute)
  with res show ?thesis
    by simp
qed


theorem assign_nodes_values_weighted_mean_witness:
  "length [[0, -1], [0, 1], [0, 1], [1, -1 :: int]] = length (vertices two_unit_triangles)
   \<and> incident_faces two_unit_triangles 1 = [0, 1]
   \<and> (\<Sum>f\<leftarrow>incident_faces two_unit_triangles 1. [1, 1 :: real] ! f) \<noteq> 0
   \<and> (\<exists>nodes_value.
         assign_nodes_values [[10, 20]] two_unit_triangles [1, 1]
           [[0, -1], [0, 1], [0, 1], [1, -1]] 0 = Inr nodes_value
         \<and> length nodes_value = 4 \<and> nodes_value ! 1 = Finite 15)"
proof -
  let ?vf = "[[0, -1], [0, 1], [0, 1], [1, -1 :: int]]"
  have i0: "incident_faces two_unit_triangles 0 = [0]"
    and i1: "incident_faces two_unit_triangles 1 = [0, 1]"
    and i2: "incident_faces two_unit_triangles 2 = [0, 1]"
    and i3: "incident_faces two_unit_triangles 3 = [1]"
    by (simp_all add: incident_faces_def two_unit_triangles_def upt_rec)
  have four: "v = 0 \<or> v = 1 \<or> v = 2 \<or> v = 3" if "v < length (vertices two_unit_triangles)" for v
    using that by (auto simp: two_unit_triangles_def)
  have rows: "length ?vf = length (vertices two_unit_triangles)"
    by (simp add: two_unit_triangles_def)
  have contract: "\<forall>v < length (vertices two_unit_triangles).
      mset (filter (\<lambda>f. f \<noteq> -1) (?vf ! v)) = mset (map int (incident_faces two_unit_triangles v))"
    using four i0 i1 i2 i3 by fastforce
  have areas: "length [1, 1 :: real] = length (faces two_unit_triangles)"
    by (simp add: two_unit_triangles_def)
  have inst: "(0::int) \<le> 0" "0 < int (length [[10, 20 :: real]])"
    by simp_all
  have fields: "length ([[10, 20 :: real]] ! nat 0) = length (faces two_unit_triangles)"
    by (simp add: two_unit_triangles_def)
  have incident: "\<forall>v < length (vertices two_unit_triangles). incident_faces two_unit_triangles v \<noteq> []"
    using four i0 i1 i2 i3 by fastforce
  have total: "(\<Sum>f\<leftarrow>incident_faces two_unit_triangles 1. [1, 1 :: real] ! f) \<noteq> 0"
    unfolding i1 by simp
  have one: "1 < length (vertices two_unit_triangles)"
    by (simp add: two_unit_triangles_def)
  from assign_nodes_values_weighted_mean [OF rows contract areas inst fields incident]
  obtain nodes_value where
    res: "assign_nodes_values [[10, 20]] two_unit_triangles [1, 1] ?vf 0 = Inr nodes_value"
    and len: "length nodes_value = length (vertices two_unit_triangles)"
    and each: "\<forall>v < length (vertices two_unit_triangles).
                 (\<Sum>f\<leftarrow>incident_faces two_unit_triangles v. [1, 1 :: real] ! f) \<noteq> 0 \<longrightarrow>
                 nodes_value ! v =
                   Finite ((\<Sum>f\<leftarrow>incident_faces two_unit_triangles v.
                              [1, 1] ! f * [[10, 20]] ! nat 0 ! f)
                           / (\<Sum>f\<leftarrow>incident_faces two_unit_triangles v. [1, 1] ! f))"
    by blast
  from each [rule_format, OF one total] have "nodes_value ! 1 = Finite 15"
    unfolding i1 by simp
  moreover have "length nodes_value = 4"
    using len by (simp add: two_unit_triangles_def)
  ultimately show ?thesis
    using res rows i1 total by blast
qed

text \<open>
  Claim C7, as stated, fails: on a mesh with a vertex that no face uses,
  \<open>assign_nodes_values\<close> raises \<open>ZeroDivisionError\<close>, not \<open>DegenerateMeshError\<close>.
\<close>

theorem isolated_vertex_counterexample:
  "assign_nodes_values [[10, 20]] square_and_loose_vertex [1/2, 1/2]
     [[0, -1], [0, 1], [0, 1], [1, -1], [-1, -1]] 0 = Inl ZeroDivisionError
   \<and> assign_nodes_values [[10, 20]] square_and_loose_vertex [1/2, 1/2]
     [[0, -1], [0, 1], [0, 1], [1, -1], [-1, -1]] 0 \<noteq> Inl DegenerateMeshError"
  by (simp add: assign_nodes_values_def square_and_loose_vertex_def upt_rec py_index_def
      node_value_def Let_def)

text \<open>
  Claim C7, amended. On a mesh with a vertex that has no incident face,
  \<open>assign_nodes_values\<close> returns no array: it raises \<open>ZeroDivisionError\<close> or \<open>IndexError\<close>,
  and \<open>ZeroDivisionError\<close> (the division \<open>0.0 / 0.0\<close> of Python floats) when the instant
  and the face indices of \<open>vertex_faces\<close> are in range. So no non-finite value of that
  division reaches a saved array.
\<close>

theorem isolated_vertex_raises:
  assumes rows: "length vertex_faces = length (vertices m)"
    and v: "v < length (vertices m)"
    and isolated: "filter (\<lambda>f. f \<noteq> -1) (vertex_faces ! v) = []"
  shows "(\<exists>e. assign_nodes_values field m area_faces vertex_faces instant = Inl e
              \<and> (e = ZeroDivisionError \<or> e = IndexError))
         \<and> (0 \<le> instant \<and> instant < int (length field)
              \<and> (\<forall>row \<in> set vertex_faces. \<forall>f \<in> set row. f \<noteq> -1 \<longrightarrow>
                    0 \<le> f \<and> f < int (length area_faces)
                    \<and> f < int (length (field ! nat instant)))
            \<longrightarrow> assign_nodes_values field m area_faces vertex_faces instant
                  = Inl ZeroDivisionError)"
proof -
  let ?idx = "[0..<length (vertices m)]"
  have "node_value area_faces field instant (vertex_faces ! v) = Inl ZeroDivisionError"
    using isolated by (simp add: node_value_def)
  then have "\<exists>e. node_value area_faces field instant (vertex_faces ! v) = Inl e"
    by blast
  with nodes_loop_Inl [of v ?idx vertex_faces area_faces field instant] v rows
  obtain e where e: "nodes_loop area_faces field instant vertex_faces ?idx = Inl e"
    by auto
  from nodes_loop_error [OF e] have kind: "e = IndexError \<or> e = ZeroDivisionError" .
  have "e = ZeroDivisionError"
    if "0 \<le> instant" "instant < int (length field)"
      "\<forall>row \<in> set vertex_faces. \<forall>f \<in> set row. f \<noteq> -1 \<longrightarrow>
         0 \<le> f \<and> f < int (length area_faces) \<and> f < int (length (field ! nat instant))"
  proof -
    have "\<forall>i \<in> set ?idx. i < length vertex_faces"
      using rows by simp
    from nodes_loop_valid_error [OF that this e] show ?thesis .
  qed
  with e kind show ?thesis
    by (auto simp: assign_nodes_values_def)
qed

theorem isolated_vertex_raises_witness:
  "length [[0, -1], [0, 1], [0, 1], [1, -1], [-1, -1 :: int]]
     = length (vertices square_and_loose_vertex)
   \<and> (4::nat) < length (vertices square_and_loose_vertex)
   \<and> filter (\<lambda>f. f \<noteq> -1) ([[0, -1], [0, 1], [0, 1], [1, -1], [-1, -1 :: int]] ! 4) = []
   \<and> assign_nodes_values [[10, 20]] square_and_loose_vertex [1/2, 1/2]
        [[0, -1], [0, 1], [0, 1], [1, -1], [-1, -1]] 0 = Inl ZeroDivisionError"
proof -
  let ?vf = "[[0, -1], [0, 1], [0, 1], [1, -1], [-1, -1 :: int]]"
  have rows: "length ?vf = length (vertices square_and_loose_vertex)"
    by (simp add: square_and_loose_vertex_def)
  have v: "(4::nat) < length (vertices square_and_loose_vertex)"
    by (simp add: square_and_loose_vertex_def)
  have isolated: "filter (\<lambda>f. f \<noteq> -1) (?vf ! 4) = []"
    by simp
  have valid: "0 \<le> (0::int) \<and> 0 < int (length [[10, 20 :: real]])
              \<and> (\<forall>row \<in> set ?vf. \<forall>f \<in> set row. f \<noteq> -1 \<longrightarrow>
                    0 \<le> f \<and> f < int (length [1/2, 1/2 :: real])
                    \<and> f < int (length ([[10, 20 :: real]] ! nat 0)))"
    by simp
  from isolated_vertex_raises [OF rows v isolated, of "[[10, 20]]" "[1/2, 1/2]" 0] valid
  have "assign_nodes_values [[10, 20]] square_and_loose_vertex [1/2, 1/2] ?vf 0
          = Inl ZeroDivisionError"
    by blast
  with rows v isolated show ?thesis by blast
qed

end
